theory Spec2Isabelle
  imports Main "HOL-Library.Word"
begin

section \<open>Strings of the page script\<close>

text \<open>
  A JavaScript string is a sequence of 16-bit code units. The regular expression of
  \<^verbatim>\<open>isValidEmail\<close> has no \<^verbatim>\<open>u\<close> flag, so it works on code units, and
  \<^verbatim>\<open>String.prototype.trim\<close> strips code units as well.
\<close>

type_synonym cu = "16 word"
type_synonym jstring = "cu list"

text \<open>The code unit of an ASCII character, and a script literal written in ASCII.\<close>

definition cu_of :: "char \<Rightarrow> cu" where
  "cu_of c = of_nat (of_char c)"

definition js :: "string \<Rightarrow> jstring" where
  "js = map cu_of"

text \<open>
  The code units matched by \<^verbatim>\<open>\s\<close> and stripped by \<^verbatim>\<open>trim()\<close>: the
  WhiteSpace and LineTerminator productions of ECMAScript (TAB, LF, VT, FF, CR, SP, NBSP,
  the Unicode space separators, LS, PS and the byte-order mark).
\<close>

definition isWhiteSpace :: "cu \<Rightarrow> bool" where
  "isWhiteSpace c \<longleftrightarrow>
     c = 0x0009 \<or> c = 0x000A \<or> c = 0x000B \<or> c = 0x000C \<or> c = 0x000D \<or>
     c = 0x0020 \<or> c = 0x00A0 \<or> c = 0x1680 \<or> (0x2000 \<le> c \<and> c \<le> 0x200A) \<or>
     c = 0x2028 \<or> c = 0x2029 \<or> c = 0x202F \<or> c = 0x205F \<or> c = 0x3000 \<or>
     c = 0xFEFF"

text \<open>\<^verbatim>\<open>s.trim()\<close>: white space is removed from both ends, never from the middle.\<close>

definition trim :: "jstring \<Rightarrow> jstring" where
  "trim s = rev (dropWhile isWhiteSpace (rev (dropWhile isWhiteSpace s)))"

text \<open>
  \<^verbatim>\<open>x || d\<close> on a value that is \<^verbatim>\<open>null\<close> or a string: \<^verbatim>\<open>null\<close> and the empty
  string are falsy and give \<open>d\<close>, every other string is truthy and is the result.
\<close>

definition or_else :: "jstring option \<Rightarrow> jstring \<Rightarrow> jstring" where
  "or_else x d = (case x of None \<Rightarrow> d | Some v \<Rightarrow> if v = [] then d else v)"

section \<open>The regular expression of \<^verbatim>\<open>isValidEmail\<close>\<close>

text \<open>
  The fragment of the pattern language that \<^verbatim>\<open>/^[^\s@]+@[^\s@]+\.[^\s@]+$/\<close> uses:
  the assertions \<^verbatim>\<open>^\<close> and \<^verbatim>\<open>$\<close> (no \<^verbatim>\<open>m\<close> flag: start and end of the
  input), a literal character, a negated character class whose members are \<^verbatim>\<open>\s\<close> or
  single characters, and the greedy quantifier \<^verbatim>\<open>+\<close> on one of these.
\<close>

datatype class_member = ClassSpace | ClassChar cu

datatype atom = Lit cu | NotIn "class_member list"

datatype rterm = AssertStart | AssertEnd | One atom | OneOrMore atom

type_synonym pattern = "rterm list"

fun member_matches :: "class_member \<Rightarrow> cu \<Rightarrow> bool" where
  "member_matches ClassSpace c = isWhiteSpace c"
| "member_matches (ClassChar d) c = (c = d)"

fun atom_matches :: "atom \<Rightarrow> cu \<Rightarrow> bool" where
  "atom_matches (Lit d) c = (c = d)"
| "atom_matches (NotIn ms) c = (\<not> list_ex (\<lambda>m. member_matches m c) ms)"

text \<open>
  The backtracking matcher: the rest of the pattern, the index of the current position
  and the input from there on. A quantified atom takes one character and then tries
  to take more before it tries the rest of the pattern.
\<close>

fun matches_from :: "pattern \<Rightarrow> nat \<Rightarrow> jstring \<Rightarrow> bool" where
  "matches_from [] i s = True"
| "matches_from (AssertStart # ts) i s = (i = 0 \<and> matches_from ts i s)"
| "matches_from (AssertEnd # ts) i s = (s = [] \<and> matches_from ts i s)"
| "matches_from (One a # ts) i [] = False"
| "matches_from (One a # ts) i (c # cs) = (atom_matches a c \<and> matches_from ts (Suc i) cs)"
| "matches_from (OneOrMore a # ts) i [] = False"
| "matches_from (OneOrMore a # ts) i (c # cs) =
     (atom_matches a c \<and>
      (matches_from (OneOrMore a # ts) (Suc i) cs \<or> matches_from ts (Suc i) cs))"

text \<open>\<^verbatim>\<open>regex.test(s)\<close>: a match may start at any index of the input.\<close>

fun search_from :: "pattern \<Rightarrow> nat \<Rightarrow> jstring \<Rightarrow> bool" where
  "search_from p i [] = matches_from p i []"
| "search_from p i (c # cs) = (matches_from p i (c # cs) \<or> search_from p (Suc i) cs)"

definition regex_test :: "pattern \<Rightarrow> jstring \<Rightarrow> bool" where
  "regex_test p s = search_from p 0 s"

definition notSpaceAt :: atom where
  "notSpaceAt = NotIn [ClassSpace, ClassChar (cu_of CHR ''@'')]"

definition emailRegex :: pattern where
  "emailRegex =
     [AssertStart, OneOrMore notSpaceAt, One (Lit (cu_of CHR ''@'')), OneOrMore notSpaceAt,
      One (Lit (cu_of CHR ''.'')), OneOrMore notSpaceAt, AssertEnd]"

definition isValidEmail :: "jstring \<Rightarrow> bool" where
  "isValidEmail email = regex_test emailRegex email"

text \<open>\<^verbatim>\<open>validateForm\<close>: \<^verbatim>\<open>!s\<close> on a string is true exactly for the empty string.\<close>

definition validateForm :: "jstring \<Rightarrow> jstring \<Rightarrow> bool" where
  "validateForm email password =
     (if email = [] \<or> password = [] then False
      else if \<not> isValidEmail email then False
      else True)"

text \<open>
  The shape that the specification gives for an accepted email, in its own words: one or
  more characters that are neither white space nor \<^verbatim>\<open>@\<close>, an \<^verbatim>\<open>@\<close>, one or more
  such characters, a dot, and one or more such characters.
\<close>

definition plain :: "cu \<Rightarrow> bool" where
  "plain c \<longleftrightarrow> \<not> isWhiteSpace c \<and> c \<noteq> cu_of CHR ''@''"

definition email_shape :: "jstring \<Rightarrow> bool" where
  "email_shape s \<longleftrightarrow>
     (\<exists>a b c. s = a @ [cu_of CHR ''@''] @ b @ [cu_of CHR ''.''] @ c \<and>
        a \<noteq> [] \<and> b \<noteq> [] \<and> c \<noteq> [] \<and>
        list_all plain a \<and> list_all plain b \<and> list_all plain c)"

section \<open>The page state\<close>

text \<open>
  What the handlers read and write: \<^verbatim>\<open>localStorage\<close>, the \<^verbatim>\<open>data-theme\<close> attribute of
  the document root (\<^verbatim>\<open>getAttribute\<close> gives \<^verbatim>\<open>null\<close> for a missing attribute), the
  style and text of the theme toggle, the \<^verbatim>\<open>type\<close> attribute of the password input and
  the class of the toggle's icon, the values of the two inputs, the remember-me check box,
  the class list of the container, and the timers that \<^verbatim>\<open>setTimeout\<close> has scheduled
  (delay in milliseconds and the address the callback assigns to \<^verbatim>\<open>window.location.href\<close>).
  The elements that the script looks up at load time are taken to exist, storage
  operations to succeed, and the inputs to hold their strings as they were entered.
\<close>

record page =
  localStorage :: "jstring \<rightharpoonup> jstring"
  data_theme :: "jstring option"
  sunIcon_opacity :: jstring
  moonIcon_opacity :: jstring
  themeLabel_textContent :: jstring
  passwordInput_type :: "jstring option"
  passwordToggle_icon_className :: jstring
  emailInput_value :: jstring
  passwordInput_value :: jstring
  rememberMe_checked :: bool
  container_classList :: "jstring list"
  timeouts :: "(nat \<times> jstring) list"

section \<open>Theme management\<close>

definition updateThemeToggle :: "jstring \<Rightarrow> page \<Rightarrow> page" where
  "updateThemeToggle theme s =
     (if theme = js ''dark''
      then s\<lparr>sunIcon_opacity := js ''0.5'', moonIcon_opacity := js ''1'',
             themeLabel_textContent := js ''Dark Mode''\<rparr>
      else s\<lparr>sunIcon_opacity := js ''1'', moonIcon_opacity := js ''0.5'',
             themeLabel_textContent := js ''Light Mode''\<rparr>)"

text \<open>The value \<^verbatim>\<open>savedTheme\<close> of \<^verbatim>\<open>initTheme\<close>: \<^verbatim>\<open>localStorage.getItem('theme') || 'light'\<close>.\<close>

definition savedTheme :: "page \<Rightarrow> jstring" where
  "savedTheme s = or_else (localStorage s (js ''theme'')) (js ''light'')"

definition initTheme :: "page \<Rightarrow> page" where
  "initTheme s = updateThemeToggle (savedTheme s) (s\<lparr>data_theme := Some (savedTheme s)\<rparr>)"

definition toggleTheme :: "page \<Rightarrow> page" where
  "toggleTheme s =
     (let currentTheme = data_theme s;
          newTheme = (if currentTheme = Some (js ''light'') then js ''dark'' else js ''light'')
      in updateThemeToggle newTheme
           (s\<lparr>data_theme := Some newTheme,
              localStorage := (localStorage s)(js ''theme'' \<mapsto> newTheme)\<rparr>))"

section \<open>Password toggle\<close>

definition togglePasswordVisibility :: "page \<Rightarrow> page" where
  "togglePasswordVisibility s =
     (let type = (if passwordInput_type s = Some (js ''password'')
                  then js ''text'' else js ''password'')
      in s\<lparr>passwordInput_type := Some type,
            passwordToggle_icon_className :=
              (if type = js ''password'' then js ''fas fa-eye'' else js ''fas fa-eye-slash'')\<rparr>)"

section \<open>Navigation, quick login and form submission\<close>

text \<open>\<^verbatim>\<open>classList.add\<close>: a token that is already in the list is not added again.\<close>

definition classList_add :: "jstring \<Rightarrow> jstring list \<Rightarrow> jstring list" where
  "classList_add tok cl = (if tok \<in> set cl then cl else cl @ [tok])"

definition navigateToDashboard :: "page \<Rightarrow> page" where
  "navigateToDashboard s =
     s\<lparr>container_classList := classList_add (js ''fade-out'') (container_classList s),
       timeouts := timeouts s @ [(200, js ''dashboard.html'')]\<rparr>"

definition quickLogin :: "page \<Rightarrow> page" where
  "quickLogin s =
     (let demoEmail = js ''hackathon@aromi.ai''
      in navigateToDashboard
           (s\<lparr>emailInput_value := demoEmail, passwordInput_value := js ''agentic_ai_demo''\<rparr>))"

text \<open>
  The \<^verbatim>\<open>submit\<close> listener of the login form. Its first statement, \<^verbatim>\<open>e.preventDefault()\<close>,
  acts on the event and leaves the page as it is.
\<close>

definition loginForm_submit :: "page \<Rightarrow> page" where
  "loginForm_submit s =
     (let email = trim (emailInput_value s);
          password = passwordInput_value s;
          rememberMe = rememberMe_checked s
      in if validateForm email password
         then navigateToDashboard
                (if rememberMe
                 then s\<lparr>localStorage := (localStorage s)(js ''rememberedEmail'' \<mapsto> email)\<rparr>
                 else s\<lparr>localStorage := (localStorage s)(js ''rememberedEmail'' := None)\<rparr>)
         else s)"

text \<open>
  The specification's \<^verbatim>\<open>submitForm(email, password, rememberMe)\<close>: the form is submitted
  with these three values in its controls.
\<close>

definition submitForm :: "jstring \<Rightarrow> jstring \<Rightarrow> bool \<Rightarrow> page \<Rightarrow> page" where
  "submitForm email password rememberMe s =
     loginForm_submit
       (s\<lparr>emailInput_value := email, passwordInput_value := password,
          rememberMe_checked := rememberMe\<rparr>)"

text \<open>The \<^verbatim>\<open>DOMContentLoaded\<close> listener.\<close>

definition initialize :: "page \<Rightarrow> page" where
  "initialize s =
     (let s1 = initTheme s;
          rememberedEmail = localStorage s1 (js ''rememberedEmail'')
      in case rememberedEmail of
           None \<Rightarrow> s1
         | Some v \<Rightarrow>
             if v = [] then s1
             else s1\<lparr>emailInput_value := v, rememberMe_checked := True\<rparr>)"

section \<open>Runs of the controller\<close>

text \<open>
  One step of the page: a listener runs, or the user edits the controls of the form.
\<close>

inductive step :: "page \<Rightarrow> page \<Rightarrow> bool" where
  step_initialize: "step s (initialize s)"
| step_toggleTheme: "step s (toggleTheme s)"
| step_togglePasswordVisibility: "step s (togglePasswordVisibility s)"
| step_submit: "step s (loginForm_submit s)"
| step_quickLogin: "step s (quickLogin s)"
| step_edit: "step s (s\<lparr>emailInput_value := e, passwordInput_value := p,
                          rememberMe_checked := r\<rparr>)"

text \<open>The states in which \<^verbatim>\<open>initTheme\<close> or \<^verbatim>\<open>toggleTheme\<close> has set the theme.\<close>

inductive theme_set :: "page \<Rightarrow> bool" where
  theme_set_initialize: "theme_set (initialize s)"
| theme_set_toggleTheme: "theme_set (toggleTheme s)"
| theme_set_step: "theme_set s \<Longrightarrow> step s s' \<Longrightarrow> theme_set s'"

text \<open>
  The states the controller reaches when it starts on a storage without a remembered
  email: a page may be loaded again at any time, which keeps the storage and nothing else.
\<close>

inductive reachable :: "page \<Rightarrow> bool" where
  reachable_fresh: "localStorage s (js ''rememberedEmail'') = None \<Longrightarrow> reachable s"
| reachable_step: "reachable s \<Longrightarrow> step s s' \<Longrightarrow> reachable s'"
| reachable_reload: "reachable s \<Longrightarrow> localStorage s' = localStorage s \<Longrightarrow> reachable s'"

text \<open>
  Pages for concrete runs. The first is a page before any listener has run, on an empty
  storage: no \<^verbatim>\<open>data-theme\<close> attribute, no inline opacity, a masked password input, empty
  fields, and a container whose only class is the one the script selects it by. The second
  is the same page on a storage that holds a theme.
\<close>

definition fresh_page :: page where
  "fresh_page =
     \<lparr>localStorage = Map.empty, data_theme = None, sunIcon_opacity = [],
      moonIcon_opacity = [], themeLabel_textContent = [],
      passwordInput_type = Some (js ''password''),
      passwordToggle_icon_className = js ''fas fa-eye'',
      emailInput_value = [], passwordInput_value = [], rememberMe_checked = False,
      container_classList = [js ''container''], timeouts = []\<rparr>"

definition page_with_theme :: "jstring \<Rightarrow> page" where
  "page_with_theme t = fresh_page\<lparr>localStorage := [js ''theme'' \<mapsto> t]\<rparr>"

text \<open>
  The same page on a storage that holds a remembered email, and with a form that the user
  has filled in.
\<close>

definition remembering_page :: page where
  "remembering_page = fresh_page\<lparr>localStorage := [js ''rememberedEmail'' \<mapsto> js ''z@b.com'']\<rparr>"

definition typed_page :: page where
  "typed_page = fresh_page\<lparr>emailInput_value := js '' a@b.com  '', passwordInput_value := js ''x'',
     rememberMe_checked := True\<rparr>"

section \<open>String literals\<close>

lemma of_char_lt: "(of_char c :: nat) < 256"
proof -
  have "(of_char c :: nat) mod 256 < 256" by simp
  thus ?thesis by (simp only: of_char_mod_256)
qed

lemma unat_cu_of: "unat (cu_of c) = of_char c"
proof -
  have "(of_char c :: nat) < 65536" using of_char_lt [of c] by linarith
  then have "(of_char c :: nat) mod 65536 = of_char c" by (rule mod_less)
  then show ?thesis by (simp add: cu_of_def unat_of_nat)
qed

lemma cu_of_inj: "cu_of a = cu_of b \<longleftrightarrow> a = b"
proof
  assume "cu_of a = cu_of b"
  then have "unat (cu_of a) = unat (cu_of b)" by simp
  then show "a = b" by (simp only: unat_cu_of of_char_eq_iff)
qed simp

lemma js_eq_iff: "js a = js b \<longleftrightarrow> a = b"
  unfolding js_def by (simp add: inj_map_eq_map inj_on_def cu_of_inj)

lemma js_nonempty: "js ''light'' \<noteq> []" "js ''dark'' \<noteq> []" "js ''blue'' \<noteq> []"
  by (simp_all add: js_def)

lemma keys_distinct: "js ''theme'' \<noteq> js ''rememberedEmail''"
  by (simp add: js_eq_iff)

section \<open>What \<^verbatim>\<open>trim\<close> removes\<close>

lemma split_at_back: "xs = rev (dropWhile P (rev xs)) @ rev (takeWhile P (rev xs))"
  by (metis rev_append rev_rev_ident takeWhile_dropWhile_id)

lemma trim_middle: "dropWhile isWhiteSpace s = trim s @ rev (takeWhile isWhiteSpace (rev (dropWhile isWhiteSpace s)))"
  unfolding trim_def by (rule split_at_back)

lemma trim_surrounding:
  "\<exists>l r. s = l @ trim s @ r \<and> list_all isWhiteSpace l \<and> list_all isWhiteSpace r"
proof -
  let ?l = "takeWhile isWhiteSpace s"
  let ?r = "rev (takeWhile isWhiteSpace (rev (dropWhile isWhiteSpace s)))"
  have "s = ?l @ dropWhile isWhiteSpace s" by simp
  with trim_middle [of s] have "s = ?l @ trim s @ ?r" by metis
  moreover have "list_all isWhiteSpace ?l"
    by (simp add: list_all_iff) (meson set_takeWhileD)
  moreover have "list_all isWhiteSpace ?r"
    by (simp add: list_all_iff) (meson set_takeWhileD)
  ultimately show ?thesis by blast
qed

lemma trim_ends:
  "trim s = [] \<or> (\<not> isWhiteSpace (hd (trim s)) \<and> \<not> isWhiteSpace (last (trim s)))"
proof (cases "trim s = []")
  case True
  then show ?thesis by simp
next
  case False
  let ?m = "dropWhile isWhiteSpace s"
  let ?k = "dropWhile isWhiteSpace (rev ?m)"
  from False have k: "?k \<noteq> []" by (simp add: trim_def)
  then have hk: "\<not> isWhiteSpace (hd ?k)" by (rule hd_dropWhile)
  have l: "last (trim s) = hd ?k"
    using k by (simp add: trim_def last_rev)
  have mne: "?m \<noteq> []"
  proof
    assume a: "?m = []"
    have "?k = []" by (simp only: a rev.simps dropWhile.simps)
    with k show False by simp
  qed
  then have hm: "\<not> isWhiteSpace (hd ?m)" by (rule hd_dropWhile)
  from False trim_middle [of s] have "hd ?m = hd (trim s)"
    by (metis hd_append2)
  with hm hk l show ?thesis by simp
qed

section \<open>What the regular expression accepts\<close>

lemma one_or_more:
  "matches_from (OneOrMore a # ts) i s \<longleftrightarrow>
     (\<exists>u v. s = u @ v \<and> u \<noteq> [] \<and> (\<forall>c\<in>set u. atom_matches a c) \<and> matches_from ts (i + length u) v)"
proof (induction s arbitrary: i)
  case Nil
  then show ?case by simp
next
  case (Cons c cs)
  show ?case (is "?L = ?R")
  proof
    assume ?L
    then have c: "atom_matches a c"
      and d: "matches_from (OneOrMore a # ts) (Suc i) cs \<or> matches_from ts (Suc i) cs"
      by simp_all
    from d show ?R
    proof
      assume "matches_from (OneOrMore a # ts) (Suc i) cs"
      then obtain u v where "cs = u @ v" "u \<noteq> []" "\<forall>x\<in>set u. atom_matches a x"
        "matches_from ts (Suc i + length u) v"
        using Cons.IH by blast
      then have "c # cs = (c # u) @ v \<and> c # u \<noteq> [] \<and> (\<forall>x\<in>set (c # u). atom_matches a x)
          \<and> matches_from ts (i + length (c # u)) v"
        using c by simp
      then show ?R by blast
    next
      assume "matches_from ts (Suc i) cs"
      then have "c # cs = [c] @ cs \<and> [c] \<noteq> [] \<and> (\<forall>x\<in>set [c]. atom_matches a x)
          \<and> matches_from ts (i + length [c]) cs"
        using c by simp
      then show ?R by blast
    qed
  next
    assume ?R
    then obtain u v where uv: "c # cs = u @ v" "u \<noteq> []" "\<forall>x\<in>set u. atom_matches a x"
        "matches_from ts (i + length u) v"
      by blast
    then obtain u' where u: "u = c # u'" by (cases u) auto
    with uv have cs: "cs = u' @ v" and c: "atom_matches a c" by simp_all
    show ?L
    proof (cases "u' = []")
      case True
      with uv u cs c show ?thesis by simp
    next
      case False
      with uv u cs have "matches_from (OneOrMore a # ts) (Suc i) cs"
        using Cons.IH [of "Suc i"] by auto
      with c show ?thesis by simp
    qed
  qed
qed

lemma notSpaceAt_plain: "atom_matches notSpaceAt c = plain c"
  by (simp add: notSpaceAt_def plain_def)

lemma one_atom:
  "matches_from (One a # ts) i s \<longleftrightarrow>
     (\<exists>c v. s = c # v \<and> atom_matches a c \<and> matches_from ts (Suc i) v)"
  by (cases s) simp_all

lemma assert_end: "matches_from [AssertEnd] i s \<longleftrightarrow> s = []"
  by simp

lemma search_after_start: "0 < i \<Longrightarrow> \<not> search_from (AssertStart # ts) i s"
  by (induction s arbitrary: i) simp_all

lemma search_anchored: "search_from (AssertStart # ts) 0 s = matches_from ts 0 s"
  by (cases s) (simp_all add: search_after_start)

lemma isValidEmail_shape: "isValidEmail s = email_shape s"
proof -
  have "isValidEmail s \<longleftrightarrow>
      (\<exists>a r1. s = a @ r1 \<and> a \<noteq> [] \<and> (\<forall>x\<in>set a. plain x) \<and>
        (\<exists>x r2. r1 = x # r2 \<and> x = cu_of CHR ''@'' \<and>
          (\<exists>b r3. r2 = b @ r3 \<and> b \<noteq> [] \<and> (\<forall>x\<in>set b. plain x) \<and>
            (\<exists>y r4. r3 = y # r4 \<and> y = cu_of CHR ''.'' \<and>
              (\<exists>c r5. r4 = c @ r5 \<and> c \<noteq> [] \<and> (\<forall>x\<in>set c. plain x) \<and> r5 = [])))))"
    unfolding isValidEmail_def regex_test_def emailRegex_def search_anchored
    by (simp only: one_or_more one_atom assert_end notSpaceAt_plain atom_matches.simps)
  also have "\<dots> \<longleftrightarrow> email_shape s" (is "?M = _")
  proof
    assume ?M
    then show "email_shape s"
      unfolding email_shape_def list_all_iff by auto
  next
    assume "email_shape s"
    then obtain a b c where
      s: "s = a @ (cu_of CHR ''@'' # b @ (cu_of CHR ''.'' # c @ []))"
      and ne: "a \<noteq> []" "b \<noteq> []" "c \<noteq> []"
      and pl: "\<forall>x\<in>set a. plain x" "\<forall>x\<in>set b. plain x" "\<forall>x\<in>set c. plain x"
      unfolding email_shape_def list_all_iff by auto
    show ?M
      apply (rule exI [of _ a], rule exI [of _ "cu_of CHR ''@'' # b @ (cu_of CHR ''.'' # c @ [])"])
      apply (intro conjI s ne pl)
      apply (rule exI [of _ "cu_of CHR ''@''"], rule exI [of _ "b @ (cu_of CHR ''.'' # c @ [])"])
      apply (intro conjI refl)
      apply (rule exI [of _ b], rule exI [of _ "cu_of CHR ''.'' # c @ []"])
      apply (intro conjI refl ne pl)
      apply (rule exI [of _ "cu_of CHR ''.''"], rule exI [of _ "c @ []"])
      apply (intro conjI refl)
      apply (rule exI [of _ c], rule exI [of _ "[]"])
      apply (intro conjI refl ne pl)
      done
  qed
  finally show ?thesis .
qed


lemma email_shape_has_at_dot:
  assumes "email_shape s"
  shows "cu_of CHR ''@'' \<in> set s \<and> cu_of CHR ''.'' \<in> set s"
  using assms unfolding email_shape_def by auto

section \<open>Validation\<close>

text \<open>
  Claim C1. For every pair of strings, \<^verbatim>\<open>validateForm\<close> returns true if and only if
  both strings are non-empty and the email has the shape: one or more characters that
  are neither white space nor \<^verbatim>\<open>@\<close>, then \<^verbatim>\<open>@\<close>, then one or more such characters,
  then a dot, then one or more such characters. In particular it returns false whenever
  either field is empty or the email has no \<^verbatim>\<open>@\<close> or no dot.
\<close>

theorem validateForm_iff_shape:
  "(validateForm email password \<longleftrightarrow>
      email \<noteq> [] \<and> password \<noteq> [] \<and> email_shape email) \<and>
   (email = [] \<or> password = [] \<or> cu_of CHR ''@'' \<notin> set email \<or> cu_of CHR ''.'' \<notin> set email
      \<longrightarrow> \<not> validateForm email password)"
proof -
  have iff: "validateForm email password \<longleftrightarrow>
      email \<noteq> [] \<and> password \<noteq> [] \<and> email_shape email"
    by (simp add: validateForm_def isValidEmail_shape)
  moreover have "\<not> validateForm email password"
    if "email = [] \<or> password = [] \<or> cu_of CHR ''@'' \<notin> set email \<or> cu_of CHR ''.'' \<notin> set email"
    using that iff email_shape_has_at_dot [of email] by blast
  ultimately show ?thesis by blast
qed

theorem validateForm_iff_shape_witness:
  "email_shape (js ''a@b.com'') \<and> cu_of CHR ''@'' \<notin> set (js ''ab.com'')
   \<and> \<not> validateForm (js ''ab.com'') (js ''x'')"
proof -
  have acc: "validateForm (js ''a@b.com'') (js ''x'')"
    by code_simp
  have noat: "cu_of CHR ''@'' \<notin> set (js ''ab.com'')"
    by code_simp
  show ?thesis
    using acc noat
      validateForm_iff_shape [of "js ''a@b.com''" "js ''x''"]
      validateForm_iff_shape [of "js ''ab.com''" "js ''x''"]
    by blast
qed

section \<open>Form submission\<close>

lemma valid_ab: "validateForm (trim (js ''a@b.com'')) (js ''x'')"
  by code_simp

lemma valid_cd: "validateForm (trim (js ''c@d.com'')) (js ''y'')"
  by code_simp

lemma trim_ab: "trim (js ''a@b.com'') = js ''a@b.com''"
  by code_simp

lemma trim_padded: "trim (js '' a@b.com  '') = js ''a@b.com''"
  by code_simp

lemma invalid_no_at: "\<not> validateForm (trim (js ''ab.com'')) (js ''x'')"
  by code_simp

lemma submit_accepts:
  assumes "validateForm (trim (emailInput_value s)) (passwordInput_value s)"
  shows "loginForm_submit s =
    navigateToDashboard
      (s\<lparr>localStorage :=
           (if rememberMe_checked s
            then (localStorage s)(js ''rememberedEmail'' \<mapsto> trim (emailInput_value s))
            else (localStorage s)(js ''rememberedEmail'' := None))\<rparr>)"
  using assms by (simp add: loginForm_submit_def)

lemma submit_rejects:
  assumes "\<not> validateForm (trim (emailInput_value s)) (passwordInput_value s)"
  shows "loginForm_submit s = s"
  using assms by (simp add: loginForm_submit_def)

lemma navigate_fields:
  "localStorage (navigateToDashboard s) = localStorage s"
  "timeouts (navigateToDashboard s) = timeouts s @ [(200, js ''dashboard.html'')]"
  "data_theme (navigateToDashboard s) = data_theme s"
  "emailInput_value (navigateToDashboard s) = emailInput_value s"
  "passwordInput_value (navigateToDashboard s) = passwordInput_value s"
  by (simp_all add: navigateToDashboard_def)

text \<open>
  Claim C2. For every email, password and remember-me flag, \<^verbatim>\<open>submitForm\<close> first trims
  the white space around the email: the input is white space, then the trimmed email, then
  white space, and the trimmed email neither starts nor ends with white space. If the
  trimmed email and the password pass validation, then with the flag set the trimmed email
  is stored under \<^verbatim>\<open>rememberedEmail\<close>, with the flag unset that key is removed, and in
  both cases \<^verbatim>\<open>navigateToDashboard\<close> runs on the resulting page, which schedules the
  redirect. After \<^verbatim>\<open>submitForm("a@b.com","x",true)\<close> the key holds \<^verbatim>\<open>a@b.com\<close>, and
  after a following \<^verbatim>\<open>submitForm("c@d.com","y",false)\<close> it is absent.
\<close>

theorem submitForm_valid:
  "(\<exists>l r. email = l @ trim email @ r \<and> list_all isWhiteSpace l \<and> list_all isWhiteSpace r) \<and>
   (trim email = [] \<or>
      (\<not> isWhiteSpace (hd (trim email)) \<and> \<not> isWhiteSpace (last (trim email)))) \<and>
   (validateForm (trim email) password \<longrightarrow>
      submitForm email password rememberMe s =
        navigateToDashboard
          (s\<lparr>emailInput_value := email, passwordInput_value := password,
             rememberMe_checked := rememberMe,
             localStorage :=
               (if rememberMe then (localStorage s)(js ''rememberedEmail'' \<mapsto> trim email)
                else (localStorage s)(js ''rememberedEmail'' := None))\<rparr>) \<and>
      localStorage (submitForm email password rememberMe s) (js ''rememberedEmail'') =
        (if rememberMe then Some (trim email) else None) \<and>
      timeouts (submitForm email password rememberMe s) =
        timeouts s @ [(200, js ''dashboard.html'')]) \<and>
   localStorage (submitForm (js ''a@b.com'') (js ''x'') True s) (js ''rememberedEmail'') =
     Some (js ''a@b.com'') \<and>
   localStorage
     (submitForm (js ''c@d.com'') (js ''y'') False (submitForm (js ''a@b.com'') (js ''x'') True s))
     (js ''rememberedEmail'') = None"
proof -
  have gen: "submitForm e p r t =
        navigateToDashboard
          (t\<lparr>emailInput_value := e, passwordInput_value := p, rememberMe_checked := r,
             localStorage :=
               (if r then (localStorage t)(js ''rememberedEmail'' \<mapsto> trim e)
                else (localStorage t)(js ''rememberedEmail'' := None))\<rparr>)"
    if "validateForm (trim e) p" for e p r t
    using that by (simp add: submitForm_def submit_accepts)
  have stored: "localStorage (submitForm e p r t) (js ''rememberedEmail'') =
        (if r then Some (trim e) else None)"
    if "validateForm (trim e) p" for e p r t
    by (simp add: gen [OF that] navigate_fields)
  have timer: "timeouts (submitForm e p r t) = timeouts t @ [(200, js ''dashboard.html'')]"
    if "validateForm (trim e) p" for e p r t
    by (simp add: gen [OF that] navigate_fields)
  have ex1: "localStorage (submitForm (js ''a@b.com'') (js ''x'') True s) (js ''rememberedEmail'') =
     Some (js ''a@b.com'')"
    by (simp add: stored [OF valid_ab] trim_ab)
  have ex2: "localStorage
     (submitForm (js ''c@d.com'') (js ''y'') False (submitForm (js ''a@b.com'') (js ''x'') True s))
     (js ''rememberedEmail'') = None"
    by (simp add: stored [OF valid_cd])
  have "validateForm (trim email) password \<longrightarrow>
      submitForm email password rememberMe s =
        navigateToDashboard
          (s\<lparr>emailInput_value := email, passwordInput_value := password,
             rememberMe_checked := rememberMe,
             localStorage :=
               (if rememberMe then (localStorage s)(js ''rememberedEmail'' \<mapsto> trim email)
                else (localStorage s)(js ''rememberedEmail'' := None))\<rparr>) \<and>
      localStorage (submitForm email password rememberMe s) (js ''rememberedEmail'') =
        (if rememberMe then Some (trim email) else None) \<and>
      timeouts (submitForm email password rememberMe s) =
        timeouts s @ [(200, js ''dashboard.html'')]"
    using gen stored timer by blast
  with trim_surrounding [of email] trim_ends [of email] ex1 ex2 show ?thesis
    by blast
qed

theorem submitForm_valid_witness:
  "validateForm (trim (js '' a@b.com  '')) (js ''x'') \<and>
   localStorage (submitForm (js '' a@b.com  '') (js ''x'') True fresh_page) (js ''rememberedEmail'')
     = Some (js ''a@b.com'') \<and>
   timeouts (submitForm (js '' a@b.com  '') (js ''x'') True fresh_page) = [(200, js ''dashboard.html'')]"
proof -
  have v: "validateForm (trim (js '' a@b.com  '')) (js ''x'')"
    by code_simp
  have t: "timeouts fresh_page = []"
    by (simp add: fresh_page_def)
  show ?thesis
    using v t submitForm_valid [of "js '' a@b.com  ''" "js ''x''" True fresh_page]
    by (simp add: trim_padded navigate_fields)
qed

text \<open>
  Claim C3. For every email, password and remember-me flag such that the trimmed email
  and the password fail validation, \<^verbatim>\<open>submitForm\<close> does nothing: the listener returns the
  page as it found it, so the storage is unchanged (a remembered email is neither written
  nor removed, whatever the flag), no redirect is scheduled and the container keeps its
  classes.
\<close>

theorem submitForm_invalid:
  "(\<not> validateForm (trim email) password \<longrightarrow>
      submitForm email password rememberMe s =
        s\<lparr>emailInput_value := email, passwordInput_value := password,
          rememberMe_checked := rememberMe\<rparr> \<and>
      localStorage (submitForm email password rememberMe s) = localStorage s \<and>
      timeouts (submitForm email password rememberMe s) = timeouts s \<and>
      container_classList (submitForm email password rememberMe s) = container_classList s) \<and>
   (\<not> validateForm (trim (emailInput_value s)) (passwordInput_value s) \<longrightarrow>
      loginForm_submit s = s)"
  by (simp add: submitForm_def submit_rejects)

theorem submitForm_invalid_witness:
  "\<not> validateForm (trim (js ''ab.com'')) (js ''x'') \<and>
   localStorage (submitForm (js ''ab.com'') (js ''x'') False remembering_page)
     (js ''rememberedEmail'') = Some (js ''z@b.com'') \<and>
   timeouts (submitForm (js ''ab.com'') (js ''x'') False remembering_page) = []"
  using invalid_no_at submitForm_invalid [of "js ''ab.com''" "js ''x''" False remembering_page]
  by (simp add: remembering_page_def fresh_page_def)

section \<open>Quick login\<close>

text \<open>
  Claim C8. Whatever the email and password fields hold, \<^verbatim>\<open>quickLogin\<close> sets the email field
  to the demo address and the password field to the demo value and then runs
  \<^verbatim>\<open>navigateToDashboard\<close>, which schedules the redirect, with no validation: the result does
  not depend on what the fields held. It neither reads nor writes the storage: the storage
  is unchanged, and changing it commutes with the call.
\<close>

theorem quickLogin_unconditional:
  "quickLogin s =
     navigateToDashboard
       (s\<lparr>emailInput_value := js ''hackathon@aromi.ai'',
          passwordInput_value := js ''agentic_ai_demo''\<rparr>) \<and>
   emailInput_value (quickLogin s) = js ''hackathon@aromi.ai'' \<and>
   passwordInput_value (quickLogin s) = js ''agentic_ai_demo'' \<and>
   timeouts (quickLogin s) = timeouts s @ [(200, js ''dashboard.html'')] \<and>
   localStorage (quickLogin s) = localStorage s \<and>
   quickLogin (s\<lparr>emailInput_value := e, passwordInput_value := p\<rparr>) = quickLogin s \<and>
   quickLogin (s\<lparr>localStorage := m\<rparr>) = (quickLogin s)\<lparr>localStorage := m\<rparr>"
  by (simp add: quickLogin_def navigateToDashboard_def)

section \<open>Password visibility\<close>

text \<open>
  Claim C9. In every page state \<^verbatim>\<open>togglePasswordVisibility\<close> changes only the \<^verbatim>\<open>type\<close> of
  the password field (from \<^verbatim>\<open>password\<close> to \<^verbatim>\<open>text\<close>, from anything else to
  \<^verbatim>\<open>password\<close>) and the class of the toggle icon; the value of the password field, the
  email field, the theme and its rendering, and the storage are unchanged.
\<close>

theorem togglePasswordVisibility_frame:
  "togglePasswordVisibility s =
     s\<lparr>passwordInput_type := passwordInput_type (togglePasswordVisibility s),
       passwordToggle_icon_className := passwordToggle_icon_className (togglePasswordVisibility s)\<rparr> \<and>
   passwordInput_value (togglePasswordVisibility s) = passwordInput_value s \<and>
   emailInput_value (togglePasswordVisibility s) = emailInput_value s \<and>
   data_theme (togglePasswordVisibility s) = data_theme s \<and>
   sunIcon_opacity (togglePasswordVisibility s) = sunIcon_opacity s \<and>
   moonIcon_opacity (togglePasswordVisibility s) = moonIcon_opacity s \<and>
   themeLabel_textContent (togglePasswordVisibility s) = themeLabel_textContent s \<and>
   localStorage (togglePasswordVisibility s) = localStorage s \<and>
   passwordInput_type (togglePasswordVisibility s) =
     Some (if passwordInput_type s = Some (js ''password'') then js ''text'' else js ''password'') \<and>
   passwordToggle_icon_className (togglePasswordVisibility s) =
     (if passwordInput_type s = Some (js ''password'') then js ''fas fa-eye-slash''
      else js ''fas fa-eye'')"
  by (simp add: togglePasswordVisibility_def Let_def js_eq_iff)

section \<open>Toggling the theme\<close>

lemma toggleTheme_fields:
  "data_theme (toggleTheme s) =
     Some (if data_theme s = Some (js ''light'') then js ''dark'' else js ''light'')"
  "localStorage (toggleTheme s) =
     (localStorage s)(js ''theme'' \<mapsto>
        (if data_theme s = Some (js ''light'') then js ''dark'' else js ''light''))"
  by (simp_all add: toggleTheme_def updateThemeToggle_def Let_def)

text \<open>
  Claim C10. For every rendered \<^verbatim>\<open>data-theme\<close> other than the exact string \<^verbatim>\<open>light\<close>, a
  missing attribute and an unrecognised value included, \<^verbatim>\<open>toggleTheme\<close> sets the attribute
  and the stored theme to \<^verbatim>\<open>light\<close>; only \<^verbatim>\<open>light\<close> is mapped to \<^verbatim>\<open>dark\<close>. So two
  calls give the attribute back exactly when it was \<^verbatim>\<open>light\<close> or \<^verbatim>\<open>dark\<close>.
\<close>

theorem toggleTheme_only_light_to_dark:
  "(data_theme s \<noteq> Some (js ''light'') \<longrightarrow>
      data_theme (toggleTheme s) = Some (js ''light'') \<and>
      localStorage (toggleTheme s) (js ''theme'') = Some (js ''light'')) \<and>
   (data_theme s = Some (js ''light'') \<longrightarrow>
      data_theme (toggleTheme s) = Some (js ''dark'') \<and>
      localStorage (toggleTheme s) (js ''theme'') = Some (js ''dark'')) \<and>
   (data_theme (toggleTheme (toggleTheme s)) = data_theme s \<longleftrightarrow>
      data_theme s = Some (js ''light'') \<or> data_theme s = Some (js ''dark''))"
  by (auto simp add: toggleTheme_fields js_eq_iff)

theorem toggleTheme_only_light_to_dark_witness:
  "data_theme (page_with_theme (js ''blue'')) \<noteq> Some (js ''light'') \<and>
   data_theme (toggleTheme (page_with_theme (js ''blue''))) = Some (js ''light'') \<and>
   data_theme (initialize (page_with_theme (js ''blue''))) \<noteq> Some (js ''light'') \<and>
   data_theme (toggleTheme (initialize (page_with_theme (js ''blue'')))) = Some (js ''light'') \<and>
   data_theme (initialize (page_with_theme (js ''light''))) = Some (js ''light'') \<and>
   localStorage (toggleTheme (initialize (page_with_theme (js ''light'')))) (js ''theme'')
     = Some (js ''dark'')"
proof -
  have a: "data_theme (page_with_theme (js ''blue'')) = None"
    by (simp add: page_with_theme_def fresh_page_def)
  have b: "data_theme (initialize (page_with_theme (js ''blue''))) = Some (js ''blue'')"
    by (simp add: initialize_def initTheme_def savedTheme_def or_else_def updateThemeToggle_def
        page_with_theme_def fresh_page_def js_eq_iff js_def)
  have c: "data_theme (initialize (page_with_theme (js ''light''))) = Some (js ''light'')"
    by (simp add: initialize_def initTheme_def savedTheme_def or_else_def updateThemeToggle_def
        page_with_theme_def fresh_page_def js_eq_iff js_def)
  show ?thesis
    using a b c
      toggleTheme_only_light_to_dark [of "page_with_theme (js ''blue'')"]
      toggleTheme_only_light_to_dark [of "initialize (page_with_theme (js ''blue''))"]
      toggleTheme_only_light_to_dark [of "initialize (page_with_theme (js ''light''))"]
    by (simp add: js_eq_iff)
qed

section \<open>The theme\<close>

lemma updateThemeToggle_frame:
  "data_theme (updateThemeToggle t s) = data_theme s"
  "localStorage (updateThemeToggle t s) = localStorage s"
  "emailInput_value (updateThemeToggle t s) = emailInput_value s"
  "rememberMe_checked (updateThemeToggle t s) = rememberMe_checked s"
  by (simp_all add: updateThemeToggle_def)

lemma updateThemeToggle_render:
  "sunIcon_opacity (updateThemeToggle t s) = (if t = js ''dark'' then js ''0.5'' else js ''1'')"
  "moonIcon_opacity (updateThemeToggle t s) = (if t = js ''dark'' then js ''1'' else js ''0.5'')"
  "themeLabel_textContent (updateThemeToggle t s) =
     (if t = js ''dark'' then js ''Dark Mode'' else js ''Light Mode'')"
  by (simp_all add: updateThemeToggle_def)

lemma initTheme_fields:
  "data_theme (initTheme s) = Some (savedTheme s)"
  "localStorage (initTheme s) = localStorage s"
  "sunIcon_opacity (initTheme s) = (if savedTheme s = js ''dark'' then js ''0.5'' else js ''1'')"
  "moonIcon_opacity (initTheme s) = (if savedTheme s = js ''dark'' then js ''1'' else js ''0.5'')"
  "themeLabel_textContent (initTheme s) =
     (if savedTheme s = js ''dark'' then js ''Dark Mode'' else js ''Light Mode'')"
  by (simp_all add: initTheme_def updateThemeToggle_frame updateThemeToggle_render)

lemma initialize_fields:
  "data_theme (initialize s) = data_theme (initTheme s)"
  "localStorage (initialize s) = localStorage s"
  "sunIcon_opacity (initialize s) = sunIcon_opacity (initTheme s)"
  "moonIcon_opacity (initialize s) = moonIcon_opacity (initTheme s)"
  "themeLabel_textContent (initialize s) = themeLabel_textContent (initTheme s)"
  by (simp_all add: initialize_def Let_def initTheme_fields split: option.splits)

lemma page_with_theme_fields:
  "localStorage (page_with_theme t) (js ''theme'') = Some t"
  "data_theme (page_with_theme t) = None"
  by (simp_all add: page_with_theme_def fresh_page_def)

lemma savedTheme_page_with_theme: "t \<noteq> [] \<Longrightarrow> savedTheme (page_with_theme t) = t"
  by (simp add: savedTheme_def or_else_def page_with_theme_fields)

lemma savedTheme_fresh: "savedTheme fresh_page = js ''light''"
  by (simp add: savedTheme_def or_else_def fresh_page_def)

text \<open>
  Claim C4, as stated, fails: on a storage whose theme is \<^verbatim>\<open>blue\<close>, which is neither
  \<^verbatim>\<open>light\<close> nor \<^verbatim>\<open>dark\<close>, \<^verbatim>\<open>initialize\<close> sets the root attribute to \<^verbatim>\<open>blue\<close>, not to
  \<^verbatim>\<open>light\<close>.
\<close>

theorem initialize_invalid_theme_counterexample:
  "localStorage (page_with_theme (js ''blue'')) (js ''theme'') = Some (js ''blue'') \<and>
   js ''blue'' \<noteq> js ''light'' \<and> js ''blue'' \<noteq> js ''dark'' \<and>
   data_theme (initialize (page_with_theme (js ''blue''))) = Some (js ''blue'') \<and>
   data_theme (initialize (page_with_theme (js ''blue''))) \<noteq> Some (js ''light'')"
  by (simp add: initialize_fields initTheme_fields savedTheme_page_with_theme js_nonempty
      page_with_theme_fields js_eq_iff)

text \<open>
  Claim C4, amended. For every storage, \<^verbatim>\<open>initialize\<close> reads the theme key. When the key is
  absent or holds the empty string, it sets the root attribute to \<^verbatim>\<open>light\<close> and renders
  the toggle for light mode. Every other stored value, recognised or not, is set as the
  root attribute as it is; the toggle is rendered for dark mode when the value is
  \<^verbatim>\<open>dark\<close> and for light mode otherwise.
\<close>

theorem initialize_theme:
  "(localStorage s (js ''theme'') = None \<or> localStorage s (js ''theme'') = Some [] \<longrightarrow>
      data_theme (initialize s) = Some (js ''light'') \<and>
      sunIcon_opacity (initialize s) = js ''1'' \<and>
      moonIcon_opacity (initialize s) = js ''0.5'' \<and>
      themeLabel_textContent (initialize s) = js ''Light Mode'') \<and>
   (localStorage s (js ''theme'') = Some v \<and> v \<noteq> [] \<longrightarrow>
      data_theme (initialize s) = Some v \<and>
      sunIcon_opacity (initialize s) = (if v = js ''dark'' then js ''0.5'' else js ''1'') \<and>
      moonIcon_opacity (initialize s) = (if v = js ''dark'' then js ''1'' else js ''0.5'') \<and>
      themeLabel_textContent (initialize s) =
        (if v = js ''dark'' then js ''Dark Mode'' else js ''Light Mode''))"
  by (auto simp add: initialize_fields initTheme_fields savedTheme_def or_else_def js_eq_iff)

theorem initialize_theme_witness:
  "localStorage fresh_page (js ''theme'') = None \<and>
   data_theme (initialize fresh_page) = Some (js ''light'') \<and>
   themeLabel_textContent (initialize fresh_page) = js ''Light Mode'' \<and>
   localStorage (page_with_theme (js ''dark'')) (js ''theme'') = Some (js ''dark'') \<and>
   data_theme (initialize (page_with_theme (js ''dark''))) = Some (js ''dark'') \<and>
   themeLabel_textContent (initialize (page_with_theme (js ''dark''))) = js ''Dark Mode'' \<and>
   data_theme (initialize (page_with_theme (js ''blue''))) = Some (js ''blue'') \<and>
   themeLabel_textContent (initialize (page_with_theme (js ''blue''))) = js ''Light Mode''"
proof -
  have f: "localStorage fresh_page (js ''theme'') = None"
    by (simp add: fresh_page_def)
  show ?thesis
    using f js_nonempty
      initialize_theme [of fresh_page]
      initialize_theme [of "page_with_theme (js ''dark'')" "js ''dark''"]
      initialize_theme [of "page_with_theme (js ''blue'')" "js ''blue''"]
    by (simp add: page_with_theme_fields js_eq_iff)
qed

lemma toggleTheme_result:
  "toggleTheme s =
     updateThemeToggle (if data_theme s = Some (js ''light'') then js ''dark'' else js ''light'')
       (s\<lparr>data_theme := Some (if data_theme s = Some (js ''light'') then js ''dark'' else js ''light''),
          localStorage := (localStorage s)(js ''theme'' \<mapsto>
            (if data_theme s = Some (js ''light'') then js ''dark'' else js ''light''))\<rparr>)"
  by (simp add: toggleTheme_def Let_def)

lemma toggleTheme_render:
  "sunIcon_opacity (toggleTheme s) = (if data_theme s = Some (js ''light'') then js ''0.5'' else js ''1'')"
  "moonIcon_opacity (toggleTheme s) = (if data_theme s = Some (js ''light'') then js ''1'' else js ''0.5'')"
  "themeLabel_textContent (toggleTheme s) =
     (if data_theme s = Some (js ''light'') then js ''Dark Mode'' else js ''Light Mode'')"
  by (simp_all add: toggleTheme_result updateThemeToggle_render js_eq_iff)

lemma savedTheme_toggleTheme:
  "savedTheme (toggleTheme s) = (if data_theme s = Some (js ''light'') then js ''dark'' else js ''light'')"
  by (simp add: savedTheme_def or_else_def toggleTheme_fields js_nonempty)

text \<open>
  Claim C6, as stated, fails: after \<^verbatim>\<open>initialize\<close> on a storage whose theme is \<^verbatim>\<open>blue\<close>,
  two calls of \<^verbatim>\<open>toggleTheme\<close> leave another root attribute, another stored theme and
  another label than before.
\<close>

theorem toggleTheme_twice_counterexample:
  "data_theme (toggleTheme (toggleTheme (initialize (page_with_theme (js ''blue''))))) \<noteq>
     data_theme (initialize (page_with_theme (js ''blue''))) \<and>
   localStorage (toggleTheme (toggleTheme (initialize (page_with_theme (js ''blue''))))) (js ''theme'') \<noteq>
     localStorage (initialize (page_with_theme (js ''blue''))) (js ''theme'') \<and>
   themeLabel_textContent (toggleTheme (toggleTheme (initialize (page_with_theme (js ''blue''))))) \<noteq>
     themeLabel_textContent (initialize (page_with_theme (js ''blue'')))"
  by (simp add: toggleTheme_fields toggleTheme_render initialize_fields initTheme_fields
      savedTheme_page_with_theme js_nonempty page_with_theme_fields js_eq_iff)

text \<open>
  Claim C6, amended. In every state whose root attribute is \<^verbatim>\<open>light\<close> or \<^verbatim>\<open>dark\<close>, whose
  stored theme as \<^verbatim>\<open>initTheme\<close> reads it is that value, and whose toggle is rendered for it,
  two calls of \<^verbatim>\<open>toggleTheme\<close> give back the stored theme as read, the root attribute, both
  icon opacities and the label; when the storage holds that very value, the whole page
  state is the one before the calls.
\<close>

theorem toggleTheme_twice:
  assumes "data_theme s = Some t" and "t = js ''light'' \<or> t = js ''dark''"
    and "savedTheme s = t" and "updateThemeToggle t s = s"
  shows "savedTheme (toggleTheme (toggleTheme s)) = savedTheme s \<and>
    data_theme (toggleTheme (toggleTheme s)) = data_theme s \<and>
    sunIcon_opacity (toggleTheme (toggleTheme s)) = sunIcon_opacity s \<and>
    moonIcon_opacity (toggleTheme (toggleTheme s)) = moonIcon_opacity s \<and>
    themeLabel_textContent (toggleTheme (toggleTheme s)) = themeLabel_textContent s \<and>
    (localStorage s (js ''theme'') = Some t \<longrightarrow> toggleTheme (toggleTheme s) = s)"
proof -
  have render:
    "sunIcon_opacity s = (if t = js ''dark'' then js ''0.5'' else js ''1'')"
    "moonIcon_opacity s = (if t = js ''dark'' then js ''1'' else js ''0.5'')"
    "themeLabel_textContent s = (if t = js ''dark'' then js ''Dark Mode'' else js ''Light Mode'')"
    using updateThemeToggle_render [of t s] assms(4) by simp_all
  have fields: "savedTheme (toggleTheme (toggleTheme s)) = savedTheme s \<and>
    data_theme (toggleTheme (toggleTheme s)) = data_theme s \<and>
    sunIcon_opacity (toggleTheme (toggleTheme s)) = sunIcon_opacity s \<and>
    moonIcon_opacity (toggleTheme (toggleTheme s)) = moonIcon_opacity s \<and>
    themeLabel_textContent (toggleTheme (toggleTheme s)) = themeLabel_textContent s"
    using assms(1-3) render
    by (auto simp add: savedTheme_toggleTheme toggleTheme_fields toggleTheme_render js_eq_iff)
  have whole: "toggleTheme (toggleTheme s) = s" if st: "localStorage s (js ''theme'') = Some t"
  proof -
    have m: "(localStorage s)(js ''theme'' \<mapsto> t) = localStorage s"
      using st by (simp add: fun_upd_idem)
    show ?thesis
      using assms(1,2) render m
      by (auto simp add: toggleTheme_result updateThemeToggle_def js_eq_iff)
  qed
  from fields whole show ?thesis by blast
qed

lemma synced_after_initialize_fresh:
  "data_theme (initialize fresh_page) = Some (js ''light'')"
  "savedTheme (initialize fresh_page) = js ''light''"
  "updateThemeToggle (js ''light'') (initialize fresh_page) = initialize fresh_page"
  by (simp_all add: initialize_def initTheme_def savedTheme_fresh updateThemeToggle_def
      savedTheme_def or_else_def fresh_page_def js_eq_iff)

theorem toggleTheme_twice_witness:
  "data_theme (initialize fresh_page) = Some (js ''light'') \<and>
   savedTheme (initialize fresh_page) = js ''light'' \<and>
   updateThemeToggle (js ''light'') (initialize fresh_page) = initialize fresh_page \<and>
   data_theme (toggleTheme (toggleTheme (initialize fresh_page))) = Some (js ''light'') \<and>
   savedTheme (toggleTheme (toggleTheme (initialize fresh_page))) = js ''light'' \<and>
   themeLabel_textContent (toggleTheme (toggleTheme (initialize fresh_page))) =
     themeLabel_textContent (initialize fresh_page)"
  using synced_after_initialize_fresh
    toggleTheme_twice [of "initialize fresh_page" "js ''light''"]
  by simp

section \<open>The stored and the rendered theme\<close>

lemma savedTheme_cong:
  "localStorage s' (js ''theme'') = localStorage s (js ''theme'') \<Longrightarrow> savedTheme s' = savedTheme s"
  by (simp add: savedTheme_def)

lemma loginForm_submit_theme:
  "data_theme (loginForm_submit s) = data_theme s"
  "localStorage (loginForm_submit s) (js ''theme'') = localStorage s (js ''theme'')"
  by (simp_all add: loginForm_submit_def Let_def navigate_fields keys_distinct)

lemma quickLogin_theme:
  "data_theme (quickLogin s) = data_theme s"
  "localStorage (quickLogin s) = localStorage s"
  by (simp_all add: quickLogin_def navigate_fields)

lemma togglePasswordVisibility_theme:
  "data_theme (togglePasswordVisibility s) = data_theme s"
  "localStorage (togglePasswordVisibility s) = localStorage s"
  by (simp_all add: togglePasswordVisibility_def Let_def)

lemma initialize_agrees: "data_theme (initialize s) = Some (savedTheme (initialize s))"
  by (simp add: initialize_fields initTheme_fields savedTheme_cong [of "initialize s" s])

lemma toggleTheme_agrees: "data_theme (toggleTheme s) = Some (savedTheme (toggleTheme s))"
  by (simp add: savedTheme_toggleTheme toggleTheme_fields)

lemma step_keeps_agreement:
  assumes "step s s'" and "data_theme s = Some (savedTheme s)"
  shows "data_theme s' = Some (savedTheme s')"
  using assms
proof (cases rule: step.cases)
  case step_initialize
  then show ?thesis by (simp add: initialize_agrees)
next
  case step_toggleTheme
  then show ?thesis by (simp add: toggleTheme_agrees)
next
  case step_togglePasswordVisibility
  with assms(2) show ?thesis
    by (simp add: togglePasswordVisibility_theme savedTheme_def)
next
  case step_submit
  with assms(2) show ?thesis
    by (simp add: loginForm_submit_theme savedTheme_def)
next
  case step_quickLogin
  with assms(2) show ?thesis
    by (simp add: quickLogin_theme savedTheme_def)
next
  case (step_edit e p r)
  with assms(2) show ?thesis
    by (simp add: savedTheme_def)
qed

lemma theme_set_agrees: "theme_set s \<Longrightarrow> data_theme s = Some (savedTheme s)"
proof (induction rule: theme_set.induct)
  case (theme_set_initialize s)
  show ?case by (rule initialize_agrees)
next
  case (theme_set_toggleTheme s)
  show ?case by (rule toggleTheme_agrees)
next
  case (theme_set_step s s')
  then show ?case by (simp add: step_keeps_agreement)
qed

text \<open>
  Claim C5. In every state that the controller reaches once \<^verbatim>\<open>initialize\<close> or
  \<^verbatim>\<open>toggleTheme\<close> has set the theme, whatever listeners run afterwards, the stored theme
  and the \<^verbatim>\<open>data-theme\<close> attribute of the root agree: the attribute is the stored theme as
  \<^verbatim>\<open>initTheme\<close> reads it, that is the stored string when there is a non-empty one and
  \<^verbatim>\<open>light\<close> when the key is absent or empty, so that loading the page again renders the
  same attribute. Right after \<^verbatim>\<open>toggleTheme\<close> the stored string and the attribute are
  equal.
\<close>

theorem theme_persisted_agrees_with_rendered:
  assumes "theme_set s"
  shows "data_theme s = Some (savedTheme s) \<and>
    (localStorage s (js ''theme'') = Some v \<and> v \<noteq> [] \<longrightarrow> data_theme s = Some v) \<and>
    (localStorage s (js ''theme'') = None \<or> localStorage s (js ''theme'') = Some [] \<longrightarrow>
       data_theme s = Some (js ''light'')) \<and>
    data_theme (initialize s) = data_theme s \<and>
    localStorage (toggleTheme s0) (js ''theme'') = data_theme (toggleTheme s0)"
  using theme_set_agrees [OF assms]
  by (auto simp add: savedTheme_def or_else_def toggleTheme_fields initialize_fields
      initTheme_fields)

theorem theme_persisted_agrees_with_rendered_witness:
  "theme_set (loginForm_submit (toggleTheme (initialize fresh_page))) \<and>
   localStorage (loginForm_submit (toggleTheme (initialize fresh_page))) (js ''theme'')
     = Some (js ''dark'') \<and>
   data_theme (loginForm_submit (toggleTheme (initialize fresh_page))) = Some (js ''dark'') \<and>
   theme_set (initialize fresh_page) \<and>
   localStorage (initialize fresh_page) (js ''theme'') = None \<and>
   data_theme (initialize fresh_page) = Some (js ''light'')"
proof -
  let ?s = "loginForm_submit (toggleTheme (initialize fresh_page))"
  have r: "theme_set ?s"
    by (intro theme_set_step [OF _ step_submit] theme_set_step [OF _ step_toggleTheme]
        theme_set_initialize)
  have r0: "theme_set (initialize fresh_page)"
    by (rule theme_set_initialize)
  have st: "localStorage ?s (js ''theme'') = Some (js ''dark'')"
    by (simp add: loginForm_submit_theme toggleTheme_fields synced_after_initialize_fresh)
  have st0: "localStorage (initialize fresh_page) (js ''theme'') = None"
    by (simp add: initialize_fields fresh_page_def)
  have a: "data_theme ?s = Some (js ''dark'')"
    using theme_persisted_agrees_with_rendered [OF r, of "js ''dark''"] st js_nonempty
    by blast
  have b: "data_theme (initialize fresh_page) = Some (js ''light'')"
    using theme_persisted_agrees_with_rendered [OF r0] st0
    by blast
  from r r0 st st0 a b show ?thesis
    by blast
qed

section \<open>The remembered email\<close>

lemma step_storage_remembered:
  assumes "step s s'"
    and "\<forall>e. localStorage s (js ''rememberedEmail'') = Some e \<longrightarrow> isValidEmail e"
  shows "\<forall>e. localStorage s' (js ''rememberedEmail'') = Some e \<longrightarrow> isValidEmail e"
  using assms
proof (cases rule: step.cases)
  case step_initialize
  with assms(2) show ?thesis by (simp add: initialize_fields)
next
  case step_toggleTheme
  with assms(2) show ?thesis by (simp add: toggleTheme_fields keys_distinct [symmetric])
next
  case step_togglePasswordVisibility
  with assms(2) show ?thesis by (simp add: togglePasswordVisibility_theme)
next
  case step_submit
  show ?thesis
  proof (cases "validateForm (trim (emailInput_value s)) (passwordInput_value s)")
    case True
    then have "isValidEmail (trim (emailInput_value s))"
      by (simp add: validateForm_def split: if_splits)
    with True step_submit show ?thesis
      by (simp add: submit_accepts navigate_fields)
  next
    case False
    with step_submit assms(2) show ?thesis by (simp add: submit_rejects)
  qed
next
  case step_quickLogin
  with assms(2) show ?thesis by (simp add: quickLogin_theme)
next
  case (step_edit e p r)
  with assms(2) show ?thesis by simp
qed

lemma reachable_remembered:
  "reachable s \<Longrightarrow> \<forall>e. localStorage s (js ''rememberedEmail'') = Some e \<longrightarrow> isValidEmail e"
proof (induction rule: reachable.induct)
  case (reachable_fresh s)
  then show ?case by simp
next
  case (reachable_step s s')
  then show ?case using step_storage_remembered by blast
next
  case (reachable_reload s s')
  then show ?case by simp
qed

text \<open>
  Claim C7. In every state that the controller reaches from a storage without a remembered
  email, by any sequence of \<^verbatim>\<open>initialize\<close>, \<^verbatim>\<open>toggleTheme\<close>, \<^verbatim>\<open>togglePasswordVisibility\<close>,
  form submissions, \<^verbatim>\<open>quickLogin\<close>, edits of the form and page loads, a remembered email in
  the storage is accepted by \<^verbatim>\<open>isValidEmail\<close>, so it has the shape that validation asks
  for: the key is written only after validation has succeeded.
\<close>

theorem rememberedEmail_is_valid:
  assumes "reachable s" and "localStorage s (js ''rememberedEmail'') = Some e"
  shows "isValidEmail e \<and> email_shape e"
  using reachable_remembered [OF assms(1)] assms(2) by (simp add: isValidEmail_shape)

theorem rememberedEmail_is_valid_witness:
  "reachable (quickLogin (loginForm_submit typed_page)) \<and>
   localStorage (quickLogin (loginForm_submit typed_page)) (js ''rememberedEmail'')
     = Some (js ''a@b.com'') \<and>
   isValidEmail (js ''a@b.com'')"
proof -
  let ?s = "quickLogin (loginForm_submit typed_page)"
  have f: "reachable fresh_page"
    by (rule reachable_fresh) (simp add: fresh_page_def)
  have t: "step fresh_page typed_page"
    unfolding typed_page_def by (rule step_edit)
  have r: "reachable ?s"
    by (intro reachable_step [OF _ step_quickLogin] reachable_step [OF _ step_submit]
        reachable_step [OF f t])
  have v: "validateForm (trim (emailInput_value typed_page)) (passwordInput_value typed_page)"
    by (simp add: typed_page_def trim_padded valid_ab [unfolded trim_ab])
  have st: "localStorage ?s (js ''rememberedEmail'') = Some (js ''a@b.com'')"
    by (simp add: quickLogin_theme submit_accepts [OF v] navigate_fields)
      (simp add: typed_page_def trim_padded)
  show ?thesis
    using r st rememberedEmail_is_valid [OF r st] by simp
qed

end
